theory Spec2Isabelle
  imports Complex_Main
begin

section \<open>The market entry strategy simulator\<close>

text \<open>
  This theory embeds \<^verbatim>\<open>simulate_strategy\<close> of \<^verbatim>\<open>market_strategy_app.py\<close> and the
  break-even figure that \<^verbatim>\<open>main\<close> derives from its result.

  Numbers. The Python code computes with doubles; the engine is embedded over
  \<^typ>\<open>real\<close>, without rounding, infinities, NaN or a signed zero. The claims below are
  stated so that they do not depend on the difference: they use the base demand and the
  scale of the sampler only where these are far from zero or are the double \<open>+0.0\<close>,
  and the columns only through their order and the single product that defines each
  entry. Where a claim does turn on rounding (the relation of C10), lines 29 and 30 are
  embedded a second time, on one row, with every operation rounded to the nearest double.
  The arguments are Python scalars (which is what \<^verbatim>\<open>main\<close> passes), so a division by
  zero raises.

  Randomness. \<^verbatim>\<open>np.random\<close> is a process-global generator. Its state is threaded
  explicitly: the engine receives the state left behind by whatever ran before and
  returns the state it leaves. The generator itself belongs to NumPy, not to this
  program, and is a parameter of the model: a seeding function and a function that
  draws one standard normal deviate and advances the state.
\<close>

subsection \<open>Errors\<close>

text \<open>
  The source defines no exception of its own and raises none explicitly. The two that
  can escape it come from Python's division and from NumPy's sampler.
\<close>

datatype error = ZeroDivisionError | ValueError

subsection \<open>The random source\<close>

record 'st rng =
  rng_seed :: "nat \<Rightarrow> 'st"
  rng_gauss :: "'st \<Rightarrow> real \<times> 'st"

text \<open>
  \<^verbatim>\<open>np.random.normal(loc, scale, size)\<close> with scalar \<open>loc\<close> and \<open>scale\<close>: it rejects
  a negative scale and a negative size with \<^verbatim>\<open>ValueError\<close> before drawing anything,
  and otherwise fills an array of \<open>size\<close> entries, each \<open>loc + scale * z\<close> for a fresh
  standard normal deviate \<open>z\<close>. NumPy rejects a scale whose sign bit is set, which includes
  the double \<open>-0.0\<close>; the test below is on the real value, so it agrees with NumPy for
  every scale other than a negative zero, and no claim is evaluated at one.
\<close>

fun draw :: "('st \<Rightarrow> real \<times> 'st) \<Rightarrow> real \<Rightarrow> real \<Rightarrow> nat \<Rightarrow> 'st \<Rightarrow> real list \<times> 'st" where
  "draw g loc scale 0 s = ([], s)"
| "draw g loc scale (Suc n) s =
     (case g s of (z, s') \<Rightarrow>
        (case draw g loc scale n s' of (xs, s'') \<Rightarrow> ((loc + scale * z) # xs, s'')))"

definition np_random_normal ::
  "'st rng \<Rightarrow> real \<Rightarrow> real \<Rightarrow> int \<Rightarrow> 'st \<Rightarrow> (error + real list) \<times> 'st" where
  "np_random_normal rng loc scale sz s =
     (if scale < 0 then (Inl ValueError, s)
      else if sz < 0 then (Inl ValueError, s)
      else (case draw (rng_gauss rng) loc scale (nat sz) s of
              (xs, s') \<Rightarrow> (Inr xs, s')))"

text \<open>\<^verbatim>\<open>np.clip(a, a_min, a_max)\<close> is \<^verbatim>\<open>minimum(a_max, maximum(a, a_min))\<close>, elementwise.\<close>

definition np_clip :: "real \<Rightarrow> real \<Rightarrow> real \<Rightarrow> real" where
  "np_clip x a_min a_max = min a_max (max x a_min)"

subsection \<open>The engine\<close>

text \<open>Python's \<^verbatim>\<open>/\<close> on scalars.\<close>

definition py_div :: "real \<Rightarrow> real \<Rightarrow> error + real" where
  "py_div a b = (if b = 0 then Inl ZeroDivisionError else Inr (a / b))"

text \<open>
  Line 22:
  \<^verbatim>\<open>base_demand = market_size * (1 - elasticity * (price - cost) / cost)\<close>
  The value is the exact one; the double the code computes differs from it by rounding,
  which can change its sign only when it is within rounding error of zero.
\<close>

definition base_demand :: "real \<Rightarrow> real \<Rightarrow> real \<Rightarrow> real \<Rightarrow> error + real" where
  "base_demand market_size elasticity price cost =
     (case py_div (elasticity * (price - cost)) cost of
        Inl e \<Rightarrow> Inl e
      | Inr q \<Rightarrow> Inr (market_size * (1 - q)))"

text \<open>The data frame that is returned: three columns.\<close>

record results =
  Demand :: "real list"
  Revenue :: "real list"
  Profit :: "real list"

text \<open>The defaults of the two keyword parameters.\<close>

definition default_simulations :: int where
  "default_simulations = 10000"

definition default_noise_std :: real where
  "default_noise_std = 5 / 100"

text \<open>
  \<^verbatim>\<open>simulate_strategy\<close>, lines 10 to 38. The first argument is the generator, the second
  the state \<^verbatim>\<open>np.random\<close> is in when the function is called; the others are the
  parameters of the source, in its order. The function seeds the global generator
  with 42 before it does anything else, so the state it leaves after an error is the
  freshly seeded one.
\<close>

definition simulate_strategy ::
  "'st rng \<Rightarrow> 'st \<Rightarrow> real \<Rightarrow> real \<Rightarrow> real \<Rightarrow> real \<Rightarrow> string \<Rightarrow> int \<Rightarrow> real
     \<Rightarrow> (error + results) \<times> 'st" where
  "simulate_strategy rng s0 price cost elasticity market_size strategy_type simulations noise_std =
     (let s1 = rng_seed rng 42 in
      case base_demand market_size elasticity price cost of
        Inl e \<Rightarrow> (Inl e, s1)
      | Inr bd \<Rightarrow>
          (case np_random_normal rng bd (bd * noise_std) simulations s1 of
             (Inl e, s2) \<Rightarrow> (Inl e, s2)
           | (Inr sampled, s2) \<Rightarrow>
               (let demand_dist = map (\<lambda>x. np_clip x 0 market_size) sampled;
                    revenue = map (\<lambda>d. d * price) demand_dist;
                    profit = map (\<lambda>d. d * (price - cost)) demand_dist
                in (Inr \<lparr>Demand = demand_dist, Revenue = revenue, Profit = profit\<rparr>, s2))))"

subsection \<open>The break-even figure of the summary\<close>

text \<open>
  Line 77: \<^verbatim>\<open>(results['Profit'] > 0).mean()\<close>, the fraction of rows with a positive
  profit. The mean of an empty column is NaN, which is \<open>None\<close> here.
\<close>

definition breakeven_chance :: "results \<Rightarrow> real option" where
  "breakeven_chance r =
     (if Profit r = [] then None
      else Some (real (length (filter (\<lambda>p. 0 < p) (Profit r))) / real (length (Profit r))))"

subsection \<open>A generator to compute with\<close>

text \<open>
  A small congruential generator with deviates in \<open>{-3/2, -1, \<dots>, 3/2}\<close>. It stands in
  for NumPy's Mersenne Twister wherever the model is evaluated on a concrete input;
  no general statement depends on it.
\<close>

definition lcg_rng :: "nat rng" where
  "lcg_rng = \<lparr>rng_seed = (\<lambda>n. n mod 16),
              rng_gauss = (\<lambda>s. ((real (s mod 7) - 3) / 2, (5 * s + 3) mod 16))\<rparr>"

subsection \<open>Lines 29 and 30 in double arithmetic\<close>








section \<open>Facts about the parts\<close>

lemma draw_length: "length (fst (draw g loc scale n s)) = n"
  by (induction n arbitrary: s) (simp_all add: split_beta)

lemma draw_scale_zero: "fst (draw g loc 0 n s) = replicate n loc"
  by (induction n arbitrary: s) (simp_all add: split_beta)

lemma np_clip_bounds: "0 \<le> a_max \<Longrightarrow> 0 \<le> np_clip x 0 a_max \<and> np_clip x 0 a_max \<le> a_max"
  by (simp add: np_clip_def)

lemma np_clip_below: "0 \<le> a_max \<Longrightarrow> x < 0 \<Longrightarrow> np_clip x 0 a_max = 0"
  by (simp add: np_clip_def)

lemma np_clip_above: "a_max < x \<Longrightarrow> np_clip x 0 a_max = a_max"
  by (simp add: np_clip_def)

lemma np_clip_inside: "0 \<le> x \<Longrightarrow> x \<le> a_max \<Longrightarrow> np_clip x 0 a_max = x"
  by (simp add: np_clip_def)

lemma base_demand_Inr:
  "cost \<noteq> 0 \<Longrightarrow>
   base_demand market_size elasticity price cost =
     Inr (market_size * (1 - elasticity * (price - cost) / cost))"
  by (simp add: base_demand_def py_div_def)

lemma base_demand_Inl:
  "base_demand market_size elasticity price 0 = Inl ZeroDivisionError"
  by (simp add: base_demand_def py_div_def)

subsection \<open>The sampler and the engine, case by case\<close>

lemma np_random_normal_Inr:
  "np_random_normal rng loc scale sz s = (Inr xs, s') \<longleftrightarrow>
     \<not> scale < 0 \<and> 0 \<le> sz \<and> draw (rng_gauss rng) loc scale (nat sz) s = (xs, s')"
  by (auto simp: np_random_normal_def split: prod.splits)

lemma np_random_normal_Inl:
  "np_random_normal rng loc scale sz s = (Inl e, s') \<longleftrightarrow>
     (scale < 0 \<or> sz < 0) \<and> e = ValueError \<and> s' = s"
  by (cases e) (auto simp: np_random_normal_def split: prod.splits)

lemma simulate_strategy_cost_zero:
  "simulate_strategy rng s0 price 0 elasticity market_size l n ns
     = (Inl ZeroDivisionError, rng_seed rng 42)"
  by (simp add: simulate_strategy_def base_demand_Inl)

lemma simulate_strategy_sampler:
  "cost \<noteq> 0 \<Longrightarrow>
   simulate_strategy rng s0 price cost elasticity market_size l n ns =
     (case np_random_normal rng (market_size * (1 - elasticity * (price - cost) / cost))
             (market_size * (1 - elasticity * (price - cost) / cost) * ns) n (rng_seed rng 42) of
        (Inl e, s2) \<Rightarrow> (Inl e, s2)
      | (Inr sampled, s2) \<Rightarrow>
          (Inr \<lparr>Demand = map (\<lambda>x. np_clip x 0 market_size) sampled,
                Revenue = map (\<lambda>d. d * price) (map (\<lambda>x. np_clip x 0 market_size) sampled),
                Profit = map (\<lambda>d. d * (price - cost)) (map (\<lambda>x. np_clip x 0 market_size) sampled)\<rparr>,
           s2))"
  by (simp add: simulate_strategy_def base_demand_Inr Let_def split: prod.splits sum.splits)

lemma simulate_strategy_sampler_Inl:
  "cost \<noteq> 0 \<Longrightarrow>
   np_random_normal rng (market_size * (1 - elasticity * (price - cost) / cost))
     (market_size * (1 - elasticity * (price - cost) / cost) * ns) n (rng_seed rng 42) = (Inl e, s2) \<Longrightarrow>
   simulate_strategy rng s0 price cost elasticity market_size l n ns = (Inl e, s2)"
  by (simp add: simulate_strategy_sampler)

lemma simulate_strategy_sampler_Inr:
  "cost \<noteq> 0 \<Longrightarrow>
   np_random_normal rng (market_size * (1 - elasticity * (price - cost) / cost))
     (market_size * (1 - elasticity * (price - cost) / cost) * ns) n (rng_seed rng 42) = (Inr sampled, s2) \<Longrightarrow>
   simulate_strategy rng s0 price cost elasticity market_size l n ns =
     (Inr \<lparr>Demand = map (\<lambda>x. np_clip x 0 market_size) sampled,
           Revenue = map (\<lambda>d. d * price) (map (\<lambda>x. np_clip x 0 market_size) sampled),
           Profit = map (\<lambda>d. d * (price - cost)) (map (\<lambda>x. np_clip x 0 market_size) sampled)\<rparr>,
      s2)"
  by (simp add: simulate_strategy_sampler)

lemma simulate_strategy_Inr:
  assumes "simulate_strategy rng s0 price cost elasticity market_size l n ns = (Inr r, s')"
  shows "cost \<noteq> 0"
    and "\<exists>sampled. np_random_normal rng (market_size * (1 - elasticity * (price - cost) / cost))
            (market_size * (1 - elasticity * (price - cost) / cost) * ns) n (rng_seed rng 42)
              = (Inr sampled, s')
          \<and> Demand r = map (\<lambda>x. np_clip x 0 market_size) sampled"
    and "Revenue r = map (\<lambda>d. d * price) (Demand r)"
    and "Profit r = map (\<lambda>d. d * (price - cost)) (Demand r)"
proof -
  show c: "cost \<noteq> 0"
    using assms by (auto simp: simulate_strategy_cost_zero)
  from assms show "\<exists>sampled. np_random_normal rng (market_size * (1 - elasticity * (price - cost) / cost))
            (market_size * (1 - elasticity * (price - cost) / cost) * ns) n (rng_seed rng 42)
              = (Inr sampled, s')
          \<and> Demand r = map (\<lambda>x. np_clip x 0 market_size) sampled"
    by (auto simp: simulate_strategy_sampler [OF c] split: prod.splits sum.splits)
  from assms show "Revenue r = map (\<lambda>d. d * price) (Demand r)"
    by (auto simp: simulate_strategy_sampler [OF c] split: prod.splits sum.splits)
  from assms show "Profit r = map (\<lambda>d. d * (price - cost)) (Demand r)"
    by (auto simp: simulate_strategy_sampler [OF c] split: prod.splits sum.splits)
qed

subsection \<open>Consequences for the returned table\<close>


lemma base_demand_elasticity_zero:
  "cost \<noteq> 0 \<Longrightarrow> base_demand market_size 0 price cost = Inr market_size"
  by (simp add: base_demand_Inr)

text \<open>
  With a base demand of zero the scale is zero, and every sample that is drawn is zero.
\<close>

lemma zero_base_demand_samples:
  assumes "np_random_normal rng 0 (0 * ns) n s = (Inr xs, s')"
  shows "xs = replicate (nat n) 0"
proof -
  from assms have "draw (rng_gauss rng) 0 0 (nat n) s = (xs, s')"
    by (simp add: np_random_normal_Inr)
  with draw_scale_zero [of "rng_gauss rng" 0 "nat n" s] show ?thesis
    by simp
qed

section \<open>Evaluating the engine\<close>

text \<open>
  One unfolding step of \<open>draw\<close> for a positive count, and the definitions to unfold
  when the engine is run on a concrete input.
\<close>

lemma draw_unfold:
  "0 < n \<Longrightarrow> draw g loc scale n s =
     (case g s of (z, s') \<Rightarrow>
        (case draw g loc scale (n - 1) s' of (xs, s'') \<Rightarrow> ((loc + scale * z) # xs, s'')))"
  by (cases n) simp_all


text \<open>
  A run with the small generator: price 3, cost 2, elasticity 1/2, a market of 1000,
  four trials and a noise fraction of 2. The base demand is 750 and the scale 1500; the
  second and third samples exceed the market and the fourth is negative.
\<close>

lemma lcg_seed: "rng_seed lcg_rng 42 = 10"
  by (simp add: lcg_rng_def)

lemma lcg_sampled:
  "np_random_normal lcg_rng 750 1500 4 10 = (Inr [750, 2250, 2250, - 750], 14)"
  by (simp add: np_random_normal_def lcg_rng_def draw_unfold)

lemma lcg_sampled_args:
  "np_random_normal lcg_rng (1000 * (1 - 1/2 * (3 - 2) / 2))
          (1000 * (1 - 1/2 * (3 - 2) / 2) * 2) 4 (rng_seed lcg_rng 42)
        = (Inr [750, 2250, 2250, - 750], 14)"
  using lcg_sampled by (simp add: lcg_seed)

lemma lcg_run:
  "simulate_strategy lcg_rng 7 3 2 (1/2) 1000 ''Low Price'' 4 2
     = (Inr \<lparr>Demand = [750, 1000, 1000, 0], Revenue = [2250, 3000, 3000, 0],
             Profit = [750, 1000, 1000, 0]\<rparr>, 14)"
  using simulate_strategy_sampler_Inr [OF _ lcg_sampled_args, of 7 "''Low Price''"]
  by (simp add: np_clip_def)



subsection \<open>Rounding to a double, evaluated\<close>








section \<open>The claims\<close>

subsection \<open>C1: which calls fail\<close>




subsection \<open>C2: the scale of the sampler\<close>

text \<open>
  C2: for every valid parameter set the standard deviation handed to the sampler is
  \<open>|baseDemand| * noiseFraction\<close>, so it is never negative and the sampler's
  negative-scale error cannot occur; with a base demand of zero it is zero and every
  sample is exactly zero.

  Line 25 passes \<open>base_demand * noise_std\<close>, without the absolute value. The Premium
  preset of \<^verbatim>\<open>main\<close> with the defaults of the other inputs (price 10, cost 2,
  elasticity 1, market 10000, 10000 trials, noise 0.05) is a valid parameter set with
  base demand \<open>-30000\<close> and scale \<open>-1500\<close>: the sampler raises \<open>ValueError\<close> and no
  table is returned. The statement below is that evaluation, for any generator.
\<close>

theorem premium_preset_raises:
  "simulate_strategy rng s0 10 2 1 10000 ''Premium'' default_simulations default_noise_std
     = (Inl ValueError, rng_seed rng 42)"
  by (simp add: simulate_strategy_sampler_Inl np_random_normal_Inl default_noise_std_def)

subsection \<open>C3: demand lies in the market\<close>

text \<open>
  C3: in every returned table, for a positive market size, every demand value lies in
  \<open>[0, marketSize]\<close>; where the sample drawn for that row is negative the demand is
  exactly zero, where it exceeds the market size the demand is exactly the market size,
  and otherwise the demand is the sample.
\<close>

theorem demand_clamped:
  assumes run: "simulate_strategy rng s0 price cost elasticity market_size l n ns = (Inr r, s')"
    and m: "0 < market_size"
    and i: "i < length (Demand r)"
  shows "0 \<le> Demand r ! i \<and> Demand r ! i \<le> market_size
    \<and> (\<exists>sampled.
          np_random_normal rng (market_size * (1 - elasticity * (price - cost) / cost))
            (market_size * (1 - elasticity * (price - cost) / cost) * ns) n (rng_seed rng 42)
              = (Inr sampled, s')
          \<and> length sampled = length (Demand r)
          \<and> (sampled ! i < 0 \<longrightarrow> Demand r ! i = 0)
          \<and> (market_size < sampled ! i \<longrightarrow> Demand r ! i = market_size)
          \<and> (0 \<le> sampled ! i \<and> sampled ! i \<le> market_size \<longrightarrow> Demand r ! i = sampled ! i))"
proof -
  from simulate_strategy_Inr(2) [OF run] obtain sampled where
    s: "np_random_normal rng (market_size * (1 - elasticity * (price - cost) / cost))
            (market_size * (1 - elasticity * (price - cost) / cost) * ns) n (rng_seed rng 42)
              = (Inr sampled, s')"
    and d: "Demand r = map (\<lambda>x. np_clip x 0 market_size) sampled"
    by (elim exE conjE)
  have len: "length sampled = length (Demand r)"
    by (simp add: d)
  with i have i': "i < length sampled"
    by simp
  have di: "Demand r ! i = np_clip (sampled ! i) 0 market_size"
    by (simp add: d i')
  from m have m0: "0 \<le> market_size" by simp
  have b1: "0 \<le> Demand r ! i" and b2: "Demand r ! i \<le> market_size"
    using np_clip_bounds [OF m0, of "sampled ! i"] by (simp_all add: di)
  have below: "sampled ! i < 0 \<longrightarrow> Demand r ! i = 0"
    by (simp add: di np_clip_below [OF m0])
  have above: "market_size < sampled ! i \<longrightarrow> Demand r ! i = market_size"
    by (simp add: di np_clip_above)
  have inside: "0 \<le> sampled ! i \<and> sampled ! i \<le> market_size \<longrightarrow> Demand r ! i = sampled ! i"
    by (simp add: di np_clip_inside)
  show ?thesis
    apply (rule conjI [OF b1])
    apply (rule conjI [OF b2])
    apply (rule exI [of _ sampled])
    apply (rule conjI [OF s])
    apply (rule conjI [OF len])
    apply (rule conjI [OF below])
    apply (rule conjI [OF above])
    apply (rule inside)
    done
qed

theorem demand_clamped_witness:
  "\<exists>r s'. simulate_strategy lcg_rng 7 3 2 (1/2) 1000 ''Low Price'' 4 2 = (Inr r, s')
      \<and> (0::real) < 1000 \<and> 3 < length (Demand r)
      \<and> 0 \<le> Demand r ! 3 \<and> Demand r ! 3 \<le> 1000 \<and> Demand r ! 3 = 0
      \<and> (\<exists>sampled. np_random_normal lcg_rng 750 1500 4 10 = (Inr sampled, s') \<and> sampled ! 3 < 0)"
proof -
  let ?r = "\<lparr>Demand = [750, 1000, 1000, 0], Revenue = [2250, 3000, 3000, 0],
             Profit = [750, 1000, 1000, 0 :: real]\<rparr>"
  have m: "(0::real) < 1000" by simp
  have i: "3 < length (Demand ?r)" by simp
  note w = demand_clamped [OF lcg_run m i]
  have b1: "0 \<le> Demand ?r ! 3"
    by (rule conjunct1 [OF w])
  have b2: "Demand ?r ! 3 \<le> 1000"
    by (rule conjunct1 [OF conjunct2 [OF w]])
  from conjunct2 [OF conjunct2 [OF w]] obtain sampled where
    s: "np_random_normal lcg_rng (1000 * (1 - 1/2 * (3 - 2) / 2))
          (1000 * (1 - 1/2 * (3 - 2) / 2) * 2) 4 (rng_seed lcg_rng 42) = (Inr sampled, 14)"
    and below: "sampled ! 3 < 0 \<longrightarrow> Demand ?r ! 3 = 0"
    by (elim conjE exE)
  from s lcg_sampled_args have sv: "sampled = [750, 2250, 2250, - 750]"
    by simp
  then have neg: "sampled ! 3 < 0"
    by simp
  with below have z: "Demand ?r ! 3 = 0"
    by (rule_tac mp)
  have s': "np_random_normal lcg_rng 750 1500 4 10 = (Inr sampled, 14)"
    using lcg_sampled sv by simp
  show ?thesis
    apply (rule exI [of _ ?r])
    apply (rule exI [of _ 14])
    apply (rule conjI [OF lcg_run])
    apply (rule conjI [OF m])
    apply (rule conjI [OF i])
    apply (rule conjI [OF b1])
    apply (rule conjI [OF b2])
    apply (rule conjI [OF z])
    apply (rule exI [of _ sampled])
    apply (rule conjI [OF s' neg])
    done
qed

subsection \<open>C4: revenue and profit are computed from demand\<close>

text \<open>
  C4: in every returned table, on every row, revenue is demand times price and profit is
  demand times (price minus cost), with the demand of that same row and the price and
  cost that were passed in.
\<close>

theorem revenue_profit_exact:
  assumes run: "simulate_strategy rng s0 price cost elasticity market_size l n ns = (Inr r, s')"
    and i: "i < length (Demand r)"
  shows "Revenue r ! i = Demand r ! i * price \<and> Profit r ! i = Demand r ! i * (price - cost)"
  using i by (simp add: simulate_strategy_Inr(3) [OF run] simulate_strategy_Inr(4) [OF run])

theorem revenue_profit_exact_witness:
  "\<exists>r s'. simulate_strategy lcg_rng 7 3 2 (1/2) 1000 ''Low Price'' 4 2 = (Inr r, s')
      \<and> 1 < length (Demand r)
      \<and> Revenue r ! 1 = Demand r ! 1 * 3 \<and> Profit r ! 1 = Demand r ! 1 * (3 - 2)"
proof -
  let ?r = "\<lparr>Demand = [750, 1000, 1000, 0], Revenue = [2250, 3000, 3000, 0],
             Profit = [750, 1000, 1000, 0 :: real]\<rparr>"
  have i: "1 < length (Demand ?r)" by simp
  from revenue_profit_exact [OF lcg_run i] lcg_run i show ?thesis
    by blast
qed

subsection \<open>C5: the table has one row per trial\<close>

text \<open>
  C5: every returned table has exactly \<open>trialCount\<close> rows, and its three columns have
  that same length.
\<close>

theorem result_length:
  assumes run: "simulate_strategy rng s0 price cost elasticity market_size l n ns = (Inr r, s')"
  shows "int (length (Demand r)) = n \<and> length (Revenue r) = length (Demand r)
    \<and> length (Profit r) = length (Demand r)"
proof -
  from simulate_strategy_Inr(2) [OF run] obtain sampled where
    s: "np_random_normal rng (market_size * (1 - elasticity * (price - cost) / cost))
            (market_size * (1 - elasticity * (price - cost) / cost) * ns) n (rng_seed rng 42)
              = (Inr sampled, s')"
    and d: "Demand r = map (\<lambda>x. np_clip x 0 market_size) sampled"
    by (elim exE conjE)
  from s have n0: "0 \<le> n"
    and dr: "draw (rng_gauss rng) (market_size * (1 - elasticity * (price - cost) / cost))
            (market_size * (1 - elasticity * (price - cost) / cost) * ns) (nat n) (rng_seed rng 42)
              = (sampled, s')"
    by (simp_all add: np_random_normal_Inr)
  have "length sampled = nat n"
    using draw_length [of "rng_gauss rng" "market_size * (1 - elasticity * (price - cost) / cost)"
        "market_size * (1 - elasticity * (price - cost) / cost) * ns" "nat n" "rng_seed rng 42"]
    by (simp add: dr)
  with n0 d have "int (length (Demand r)) = n"
    by simp
  then show ?thesis
    by (simp add: simulate_strategy_Inr(3) [OF run] simulate_strategy_Inr(4) [OF run])
qed

theorem result_length_witness:
  "\<exists>r s'. simulate_strategy lcg_rng 7 3 2 (1/2) 1000 ''Low Price'' 4 2 = (Inr r, s')
      \<and> int (length (Demand r)) = 4 \<and> length (Revenue r) = length (Demand r)
      \<and> length (Profit r) = length (Demand r)"
  using result_length [OF lcg_run] lcg_run by blast

subsection \<open>C6: two runs give the same table\<close>

text \<open>
  C6: two runs with the same parameters give the same outcome, row for row. The engine
  reseeds the global generator with 42 on entry, so the outcome (and the generator state
  left behind) does not depend on the state the generator was in before the call.
\<close>

theorem simulate_strategy_reseeds:
  "simulate_strategy rng s1 price cost elasticity market_size l n ns
     = simulate_strategy rng s2 price cost elasticity market_size l n ns"
  by (simp add: simulate_strategy_def)

subsection \<open>C7: the base demand\<close>

text \<open>
  C7: the base demand is \<open>marketSize * (1 - elasticity * (price - cost) / cost)\<close>; with
  elasticity zero it is the market size; and a negative base demand is permitted and
  handled by clipping, never treated as an error.

  The formula and the case of elasticity zero hold (\<open>base_demand_Inr\<close>,
  \<open>base_demand_elasticity_zero\<close>). The last part does not: a negative base demand makes
  the scale of line 25 negative whenever the noise fraction is positive, and the sampler
  raises. The Custom preset of \<^verbatim>\<open>main\<close> at its default price (price 5, cost 2,
  elasticity 1, market 10000) has base demand \<open>-5000\<close>, and the call fails with
  \<open>ValueError\<close>.
\<close>

theorem custom_default_negative_base_demand_raises:
  "base_demand 10000 1 5 2 = Inr (- 5000)
   \<and> simulate_strategy rng s0 5 2 1 10000 ''Custom'' default_simulations default_noise_std
        = (Inl ValueError, rng_seed rng 42)"
  by (simp add: base_demand_Inr simulate_strategy_sampler_Inl np_random_normal_Inl default_noise_std_def)

subsection \<open>C8: the strategy label is not used\<close>

text \<open>
  C8: two calls that differ only in the strategy label give the same outcome.
\<close>

theorem strategy_type_ignored:
  "simulate_strategy rng s0 price cost elasticity market_size l1 n ns
     = simulate_strategy rng s0 price cost elasticity market_size l2 n ns"
  by (simp add: simulate_strategy_def)

subsection \<open>C9: the first scenario\<close>

text \<open>
  C9: price 3, cost 2, elasticity 0.5, market 1000, noise 0 and five trials give five
  rows of demand 750, revenue 2250 and profit 750, whatever the generator, and the
  break-even figure of that table is 1.
\<close>

theorem low_price_scenario:
  "fst (simulate_strategy rng s0 3 2 (1/2) 1000 l 5 0)
     = Inr \<lparr>Demand = [750, 750, 750, 750, 750],
            Revenue = [2250, 2250, 2250, 2250, 2250],
            Profit = [750, 750, 750, 750, 750]\<rparr>
   \<and> breakeven_chance \<lparr>Demand = [750, 750, 750, 750, 750],
            Revenue = [2250, 2250, 2250, 2250, 2250],
            Profit = [750, 750, 750, 750, 750]\<rparr> = Some 1"
proof
  obtain xs s' where d: "draw (rng_gauss rng) 750 0 5 (rng_seed rng 42) = (xs, s')"
    by (cases "draw (rng_gauss rng) 750 0 5 (rng_seed rng 42)")
  have xs: "xs = replicate 5 750"
    using draw_scale_zero [of "rng_gauss rng" 750 5 "rng_seed rng 42"] d by simp
  have "np_random_normal rng 750 0 5 (rng_seed rng 42) = (Inr xs, s')"
    using d by (simp add: np_random_normal_Inr)
  then have "simulate_strategy rng s0 3 2 (1/2) 1000 l 5 0
      = (Inr \<lparr>Demand = map (\<lambda>x. np_clip x 0 1000) xs,
              Revenue = map (\<lambda>d. d * 3) (map (\<lambda>x. np_clip x 0 1000) xs),
              Profit = map (\<lambda>d. d * (3 - 2)) (map (\<lambda>x. np_clip x 0 1000) xs)\<rparr>, s')"
    using simulate_strategy_sampler_Inr [of 2 rng 1000 "1/2" 3 0 5 xs s' s0 l] by simp
  then show "fst (simulate_strategy rng s0 3 2 (1/2) 1000 l 5 0)
     = Inr \<lparr>Demand = [750, 750, 750, 750, 750],
            Revenue = [2250, 2250, 2250, 2250, 2250],
            Profit = [750, 750, 750, 750, 750]\<rparr>"
    by (simp add: xs np_clip_def eval_nat_numeral)
next
  show "breakeven_chance \<lparr>Demand = [750, 750, 750, 750, 750],
            Revenue = [2250, 2250, 2250, 2250, 2250],
            Profit = [750, 750, 750, 750, 750]\<rparr> = Some 1"
    by (simp add: breakeven_chance_def)
qed

subsection \<open>C10: profit, revenue and cost\<close>




end
